theory Spec2Isabelle
  imports Main "HOL-Library.Word" "HOL-Library.Sublist"
begin

section \<open>Python values used by the ggml generator\<close>

text \<open>
  A Python \<open>str\<close> is a sequence of Unicode code points and a \<open>bytes\<close> object a sequence
  of octets. Text decoded from the external tool may hold any code point, so a string is a
  list of code point numbers rather than a list of 8-bit characters.
\<close>

type_synonym str = "nat list"
type_synonym bytes = "8 word list"

definition ustr :: "string \<Rightarrow> str" where
  "ustr s = map of_char s"

text \<open>
  The values that the generator's attributes hold. A float is named by its \<open>repr\<close>, the
  text that \<open>str()\<close> returns for it; the program does no arithmetic on floats.
\<close>

datatype pyval = PNone | PStr str | PInt int | PFloat str

fun dec_digits :: "nat \<Rightarrow> str" where
  "dec_digits n = (if n < 10 then [48 + n] else dec_digits (n div 10) @ [48 + n mod 10])"

declare dec_digits.simps [simp del]

definition str_int :: "int \<Rightarrow> str" where
  "str_int i = (if i < 0 then 45 # dec_digits (nat (- i)) else dec_digits (nat i))"

fun py_str :: "pyval \<Rightarrow> str" where
  "py_str PNone = ustr ''None''"
| "py_str (PStr s) = s"
| "py_str (PInt i) = str_int i"
| "py_str (PFloat r) = r"

section \<open>The generator object\<close>

record generator =
  path_to_ggml_main :: str
  name :: str
  generations :: int
  max_tokens :: pyval
  repeat_penalty :: pyval
  presence_penalty :: pyval
  frequency_penalty :: pyval
  top_k :: pyval
  top_p :: pyval
  temperature :: pyval
  seed :: pyval
  exception_on_failure :: bool
  first_call :: bool

section \<open>Building the command line\<close>

text \<open>\<open>command_params\<close>: the dict literal, in insertion order.\<close>

definition command_params :: "generator \<Rightarrow> (str \<times> pyval) list" where
  "command_params self =
     [(ustr ''-m'', PStr (name self)),
      (ustr ''-n'', max_tokens self),
      (ustr ''--repeat-penalty'', repeat_penalty self),
      (ustr ''--presence-penalty'', presence_penalty self),
      (ustr ''--frequency-penalty'', frequency_penalty self),
      (ustr ''--top-k'', top_k self),
      (ustr ''--top-p'', top_p self),
      (ustr ''--temp'', temperature self),
      (ustr ''-s'', seed self)]"

text \<open>The \<open>for key, value in ...items()\<close> loop of \<open>_call_model\<close>, appending to \<open>command\<close>.\<close>

fun append_params :: "pyval list \<Rightarrow> (str \<times> pyval) list \<Rightarrow> pyval list" where
  "append_params command [] = command"
| "append_params command ((key, value) # items) =
     append_params (if value \<noteq> PNone then command @ [PStr key, value] else command) items"

text \<open>The argument vector handed to \<open>subprocess.run\<close>: every element through \<open>str()\<close>.\<close>

definition build_command :: "generator \<Rightarrow> str \<Rightarrow> str list" where
  "build_command self prompt =
     map py_str
       (append_params [PStr (path_to_ggml_main self), PStr (ustr ''-p''), PStr prompt]
          (command_params self))"

text \<open>
  In the words of the specification, what one parameter contributes to the vector: nothing
  when it is unset, else its flag token and the text of its value.
\<close>

definition flag_value :: "string \<Rightarrow> pyval \<Rightarrow> str list" where
  "flag_value flag v = (if v = PNone then [] else [ustr flag, py_str v])"

section \<open>Text: decoding, trimming, escaping\<close>

text \<open>
  \<open>bytes.decode("utf-8")\<close> with the default strict error handling: the well-formed
  byte sequences of UTF-8 (no overlong forms, no surrogates, nothing above U+10FFFF);
  \<open>None\<close> stands for the \<open>UnicodeDecodeError\<close> raised at the first ill-formed one.
\<close>

definition in_range :: "8 word \<Rightarrow> 8 word \<Rightarrow> 8 word \<Rightarrow> bool" where
  "in_range lo hi b = (lo \<le> b \<and> b \<le> hi)"

definition second_ok :: "8 word \<Rightarrow> 8 word \<Rightarrow> bool" where
  "second_ok b c =
     (if b = 0xE0 then in_range 0xA0 0xBF c
      else if b = 0xED then in_range 0x80 0x9F c
      else if b = 0xF0 then in_range 0x90 0xBF c
      else if b = 0xF4 then in_range 0x80 0x8F c
      else in_range 0x80 0xBF c)"

fun utf8_decode :: "bytes \<Rightarrow> str option" where
  "utf8_decode [] = Some []"
| "utf8_decode (b # bs) =
     (if b < 0x80 then map_option ((#) (unat b)) (utf8_decode bs)
      else if in_range 0xC2 0xDF b then
        (case bs of
           c1 # r \<Rightarrow>
             if in_range 0x80 0xBF c1
             then map_option ((#) (unat b mod 32 * 64 + unat c1 mod 64)) (utf8_decode r)
             else None
         | _ \<Rightarrow> None)
      else if in_range 0xE0 0xEF b then
        (case bs of
           c1 # c2 # r \<Rightarrow>
             if second_ok b c1 \<and> in_range 0x80 0xBF c2
             then map_option
                    ((#) (unat b mod 16 * 4096 + unat c1 mod 64 * 64 + unat c2 mod 64))
                    (utf8_decode r)
             else None
         | _ \<Rightarrow> None)
      else if in_range 0xF0 0xF4 b then
        (case bs of
           c1 # c2 # c3 # r \<Rightarrow>
             if second_ok b c1 \<and> in_range 0x80 0xBF c2 \<and> in_range 0x80 0xBF c3
             then map_option
                    ((#) (unat b mod 8 * 262144 + unat c1 mod 64 * 4096
                          + unat c2 mod 64 * 64 + unat c3 mod 64))
                    (utf8_decode r)
             else None
         | _ \<Rightarrow> None)
      else None)"

text \<open>
  \<open>str.lstrip()\<close> without an argument removes leading whitespace, the code points for
  which \<open>str.isspace\<close> holds.
\<close>

definition py_isspace :: "nat \<Rightarrow> bool" where
  "py_isspace c =
     (c \<in> {9, 10, 11, 12, 13, 28, 29, 30, 31, 32, 133, 160, 5760,
            8232, 8233, 8239, 8287, 12288}
      \<or> (8192 \<le> c \<and> c \<le> 8202))"

definition lstrip :: "str \<Rightarrow> str" where
  "lstrip s = dropWhile py_isspace s"

text \<open>
  \<open>re.escape\<close> (Python 3.7 and later): a backslash (92) before each of the characters
  \<open>( ) [ ] { } ? * + - | ^ $ \ . & ~ #\<close>, space, tab, newline, return, vertical tab
  and form feed; every other character as it is.
\<close>

definition re_special_chars :: "nat list" where
  "re_special_chars =
     [40, 41, 91, 93, 123, 125, 63, 42, 43, 45, 124, 94, 36, 92, 46, 38, 126, 35,
      32, 9, 10, 13, 11, 12]"

definition re_escape :: "str \<Rightarrow> str" where
  "re_escape pattern =
     concat (map (\<lambda>c. if c \<in> set re_special_chars then [92, c] else [c]) pattern)"

section \<open>Regular expressions: the fragment the generator uses\<close>

text \<open>
  The only pattern the generator compiles is \<open>"^" + re.escape(...)\<close>, with no flags.
  That fragment is modelled: \<open>^\<close> (94), which without \<open>re.MULTILINE\<close> matches only at
  the start of the string; a backslash followed by a character that is not an ASCII
  letter or digit, which matches that character; and any character that is not one of
  the metacharacters \<open>. ^ $ * + ? { } [ ] \ | ( )\<close>, which matches itself. A pattern
  outside the fragment compiles to \<open>None\<close>.
\<close>

datatype re_item = AtStart | Literal nat

definition re_metachars :: "nat list" where
  "re_metachars = [46, 94, 36, 42, 43, 63, 123, 125, 91, 93, 92, 124, 40, 41]"

definition is_ascii_alnum :: "nat \<Rightarrow> bool" where
  "is_ascii_alnum c = ((48 \<le> c \<and> c \<le> 57) \<or> (65 \<le> c \<and> c \<le> 90) \<or> (97 \<le> c \<and> c \<le> 122))"

fun re_compile :: "str \<Rightarrow> re_item list option" where
  "re_compile [] = Some []"
| "re_compile (c # cs) =
     (if c = 92 then
        (case cs of
           [] \<Rightarrow> None
         | d # ds \<Rightarrow>
             if is_ascii_alnum d then None
             else map_option ((#) (Literal d)) (re_compile ds))
      else if c = 94 then map_option ((#) AtStart) (re_compile cs)
      else if c \<in> set re_metachars then None
      else map_option ((#) (Literal c)) (re_compile cs))"

text \<open>
  Matching a compiled pattern at one position: \<open>at_start\<close> tells whether the position is
  the start of the string, the string is what remains from the position on, and the
  result is the length of the match.
\<close>

fun re_match :: "re_item list \<Rightarrow> bool \<Rightarrow> str \<Rightarrow> nat option" where
  "re_match [] at_start s = Some 0"
| "re_match (AtStart # items) at_start s =
     (if at_start then re_match items at_start s else None)"
| "re_match (Literal c # items) at_start [] = None"
| "re_match (Literal c # items) at_start (d # s) =
     (if c = d then map_option Suc (re_match items False s) else None)"

text \<open>
  \<open>re.sub\<close> scans the string from left to right and replaces every non-overlapping
  match; where nothing matches (or the match is empty) one character is copied and the
  scan moves on. The replacement is taken literally (the generator passes \<open>""\<close>).
\<close>

fun re_sub_from :: "re_item list \<Rightarrow> str \<Rightarrow> bool \<Rightarrow> str \<Rightarrow> str" where
  "re_sub_from pat repl at_start [] =
     (case re_match pat at_start [] of None \<Rightarrow> [] | Some n \<Rightarrow> repl)"
| "re_sub_from pat repl at_start (c # cs) =
     (case re_match pat at_start (c # cs) of
        None \<Rightarrow> c # re_sub_from pat repl False cs
      | Some 0 \<Rightarrow> repl @ c # re_sub_from pat repl False cs
      | Some (Suc n) \<Rightarrow> repl @ re_sub_from pat repl False (drop n cs))"

section \<open>Exceptions and the external process\<close>

text \<open>
  The exceptions that occur, all of them derived from \<open>Exception\<close>. \<open>CalledProcessError\<close>
  carries the exit code, the command, and the captured stdout and stderr; \<open>ReError\<close> is
  \<open>re.error\<close>.
\<close>

datatype exn =
    RuntimeError str
  | FileNotFoundError str
  | CalledProcessError int "str list" bytes bytes
  | UnicodeDecodeError
  | OSError str
  | ValueError str
  | ReError

definition re_sub :: "str \<Rightarrow> str \<Rightarrow> str \<Rightarrow> exn + str" where
  "re_sub pattern repl string =
     (case re_compile pattern of
        None \<Rightarrow> Inl ReError
      | Some pat \<Rightarrow> Inr (re_sub_from pat repl True string))"

text \<open>
  What the operating system does with a command: the process runs to its end with an exit
  code and the bytes it wrote to stdout and stderr, or it cannot be run and
  \<open>subprocess.run\<close> raises (an \<open>OSError\<close> for a file that cannot be executed, a
  \<open>ValueError\<close> for an argument with a NUL character).
\<close>

datatype proc_result = Exited int bytes bytes | NotRun exn

type_synonym os = "str list \<Rightarrow> proc_result"

record completed_process =
  returncode :: int
  stdout :: bytes
  stderr :: bytes

text \<open>\<open>subprocess.run(command, stdout=PIPE, stderr=PIPE, check=check)\<close>.\<close>

definition subprocess_run :: "os \<Rightarrow> str list \<Rightarrow> bool \<Rightarrow> exn + completed_process" where
  "subprocess_run run command check =
     (case run command of
        NotRun e \<Rightarrow> Inl e
      | Exited rc out err \<Rightarrow>
          if check \<and> rc \<noteq> 0 then Inl (CalledProcessError rc command out err)
          else Inr \<lparr>returncode = rc, stdout = out, stderr = err\<rparr>)"

text \<open>
  Echo stripping in the words of the specification, to compare with what \<open>re.sub\<close> does:
  trim leading whitespace from the decoded output and from the prompt, then drop one
  leading occurrence of the trimmed prompt if the trimmed output starts with it, and
  leave the trimmed output as it is otherwise.
\<close>

definition strip_echo_spec :: "str \<Rightarrow> str \<Rightarrow> str" where
  "strip_echo_spec prompt text =
     (let output = lstrip text; echo = lstrip prompt
      in if prefix echo output then drop (length echo) output else output)"

section \<open>Calling the model\<close>

datatype log_entry = LogText str | LogExn exn

datatype print_entry = PrintInvoked "str list" | PrintText str

text \<open>
  What a call leaves behind: the value returned (\<open>Inr\<close>; \<open>None\<close> is Python's \<open>None\<close>) or
  the exception that leaves \<open>_call_model\<close> (\<open>Inl\<close>), the generator object after the call,
  the records handed to \<open>logging.error\<close> and the lines printed.
\<close>

record call_result =
  outcome :: "exn + str option"
  self_after :: generator
  logged :: "log_entry list"
  printed :: "print_entry list"

text \<open>
  The body of the \<open>try\<close> block up to the assignment to \<open>first_call\<close>: the text to return,
  or the exception raised on the way.
\<close>

definition try_body :: "generator \<Rightarrow> os \<Rightarrow> str list \<Rightarrow> str \<Rightarrow> exn + str" where
  "try_body self run command prompt =
     (case subprocess_run run command (exception_on_failure self) of
        Inl e \<Rightarrow> Inl e
      | Inr result \<Rightarrow>
          (case utf8_decode (stdout result) of
             None \<Rightarrow> Inl UnicodeDecodeError
           | Some output \<Rightarrow> re_sub (94 # re_escape (lstrip prompt)) [] (lstrip output)))"

text \<open>
  The two \<open>except\<close> clauses. In the first, decoding \<open>err.stderr\<close> for \<open>print\<close> can itself
  raise; that exception leaves the function, since it is raised inside a handler.
\<close>

fun except_clauses :: "generator \<Rightarrow> print_entry list \<Rightarrow> exn \<Rightarrow> call_result" where
  "except_clauses self pr (CalledProcessError rc cmd out err) =
     (case utf8_decode err of
        None \<Rightarrow>
          \<lparr>outcome = Inl UnicodeDecodeError, self_after = self, logged = [], printed = pr\<rparr>
      | Some text \<Rightarrow>
          \<lparr>outcome = (if first_call self then Inl (CalledProcessError rc cmd out err)
                      else Inr None),
           self_after = self,
           logged = [LogText text],
           printed = pr @ [PrintText text]\<rparr>)"
| "except_clauses self pr e =
     \<lparr>outcome = Inr None, self_after = self, logged = [LogExn e], printed = pr\<rparr>"

definition call_model :: "generator \<Rightarrow> int \<Rightarrow> os \<Rightarrow> str \<Rightarrow> call_result" where
  "call_model self verbose run prompt =
     (let command = build_command self prompt;
          pr = (if verbose > 1 then [PrintInvoked command] else [])
      in case try_body self run command prompt of
           Inr output \<Rightarrow>
             \<lparr>outcome = Inr (Some output),
              self_after = self\<lparr>first_call := False\<rparr>,
              logged = [],
              printed = pr\<rparr>
         | Inl e \<Rightarrow> except_clauses self pr e)"

text \<open>
  A series of calls on one generator object, whatever each call returns or raises: the
  caller may catch the exception and call again.
\<close>

fun call_sequence :: "generator \<Rightarrow> int \<Rightarrow> (os \<times> str) list \<Rightarrow> generator" where
  "call_sequence self verbose [] = self"
| "call_sequence self verbose ((run, prompt) # calls) =
     call_sequence (self_after (call_model self verbose run prompt)) verbose calls"

section \<open>Construction\<close>

text \<open>
  What the constructor sees of the world: the process environment variables, the regular
  files with their contents (a path that is not a regular file has no entry; a regular
  file is taken to be readable) and the seed of the run configuration,
  \<open>_config.run.seed\<close>.
\<close>

record environment =
  environ :: "str \<Rightarrow> str option"
  files :: "str \<Rightarrow> bytes option"
  run_seed :: "int option"

definition os_getenv :: "environment \<Rightarrow> str \<Rightarrow> str option" where
  "os_getenv env key = environ env key"

definition isfile :: "environment \<Rightarrow> str \<Rightarrow> bool" where
  "isfile env path = (files env path \<noteq> None)"

text \<open>\<open>open(path, 'rb').read(n)\<close> on a fresh handle: the first \<open>n\<close> bytes, fewer at end of file.\<close>

definition file_read :: "environment \<Rightarrow> str \<Rightarrow> nat \<Rightarrow> bytes" where
  "file_read env path n = (case files env path of None \<Rightarrow> [] | Some content \<Rightarrow> take n content)"

datatype fs_event = FsIsFile str | FsOpen str | FsRead str nat | FsClose str

definition GGUF_MAGIC :: bytes where
  "GGUF_MAGIC = [0x47, 0x47, 0x55, 0x46]"

text \<open>
  \<open>__init__\<close>: the exception raised or the generator object, and the file system calls
  made on the way. \<open>Generator.__init__\<close> of the base class is not part of these sources; it
  is taken to store its arguments as \<open>name\<close> and \<open>generations\<close>, and \<open>max_tokens\<close> is the attribute the
  base class provides, a parameter here. The other attributes are the class attributes.
\<close>

definition init :: "environment \<Rightarrow> pyval \<Rightarrow> str \<Rightarrow> int \<Rightarrow> (exn + generator) \<times> fs_event list" where
  "init env base_max_tokens model_name n_generations =
     (case os_getenv env (ustr ''GGML_MAIN_PATH'') of
        None \<Rightarrow>
          (Inl (RuntimeError (ustr ''Executable not provided by environment GGML_MAIN_PATH'')), [])
      | Some path \<Rightarrow>
          if \<not> isfile env path
          then (Inl (FileNotFoundError (ustr ''Path provided is not a file: '' @ path)),
                [FsIsFile path])
          else
            let seed_value = (case run_seed env of Some s \<Rightarrow> s | None \<Rightarrow> 0) in
            if \<not> isfile env model_name
            then (Inl (FileNotFoundError (ustr ''File not found, unable to load model: '' @ model_name)),
                  [FsIsFile path, FsIsFile model_name])
            else
              let magic_num = file_read env model_name (length GGUF_MAGIC);
                  io = [FsIsFile path, FsIsFile model_name, FsOpen model_name,
                        FsRead model_name (length GGUF_MAGIC), FsClose model_name]
              in
              if magic_num \<noteq> GGUF_MAGIC
              then (Inl (RuntimeError (model_name @ ustr '' is not in GGUF format'')), io)
              else
                (Inr \<lparr>path_to_ggml_main = path,
                      name = model_name,
                      generations = n_generations,
                      max_tokens = base_max_tokens,
                      repeat_penalty = PFloat (ustr ''1.1''),
                      presence_penalty = PFloat (ustr ''0.0''),
                      frequency_penalty = PFloat (ustr ''0.0''),
                      top_k = PInt 40,
                      top_p = PFloat (ustr ''0.95''),
                      temperature = PFloat (ustr ''0.8''),
                      seed = PInt seed_value,
                      exception_on_failure = True,
                      first_call = True\<rparr>,
                 io))"

section \<open>Concrete inputs\<close>

text \<open>
  A world with the executable \<open>/opt/llama/main\<close> and three model files: one that starts
  with the GGUF signature, one that does not, and one of two bytes.
\<close>

definition example_env :: environment where
  "example_env =
     \<lparr>environ = [ustr ''GGML_MAIN_PATH'' \<mapsto> ustr ''/opt/llama/main''],
      files = [ustr ''/opt/llama/main'' \<mapsto> [0x7F, 0x45, 0x4C, 0x46],
               ustr ''good.gguf'' \<mapsto> [0x47, 0x47, 0x55, 0x46, 0x03, 0x00],
               ustr ''bad.bin'' \<mapsto> [0x67, 0x67, 0x6D, 0x6C, 0x01],
               ustr ''short.bin'' \<mapsto> [0x47, 0x47]],
      run_seed = None\<rparr>"

text \<open>The generator of the scenario with \<open>max_tokens = 50\<close>, before its first call.\<close>

definition example_generator :: generator where
  "example_generator =
     \<lparr>path_to_ggml_main = ustr ''/opt/llama/main'',
      name = ustr ''good.gguf'',
      generations = 10,
      max_tokens = PInt 50,
      repeat_penalty = PFloat (ustr ''1.1''),
      presence_penalty = PFloat (ustr ''0.0''),
      frequency_penalty = PFloat (ustr ''0.0''),
      top_k = PInt 40,
      top_p = PFloat (ustr ''0.95''),
      temperature = PFloat (ustr ''0.8''),
      seed = PInt 0,
      exception_on_failure = True,
      first_call = True\<rparr>"

text \<open>Processes that answer every command in the same way.\<close>

definition exits_with :: "int \<Rightarrow> string \<Rightarrow> string \<Rightarrow> os" where
  "exits_with rc out err = (\<lambda>command. Exited rc (map of_char out) (map of_char err))"

definition exits_with_bytes :: "int \<Rightarrow> bytes \<Rightarrow> bytes \<Rightarrow> os" where
  "exits_with_bytes rc out err = (\<lambda>command. Exited rc out err)"

definition cannot_run :: os where
  "cannot_run = (\<lambda>command. NotRun (OSError (ustr ''Exec format error'')))"

section \<open>Regular expressions: lemmas\<close>

lemma special_not_alnum: "c \<in> set re_special_chars \<Longrightarrow> \<not> is_ascii_alnum c"
  by (auto simp: re_special_chars_def is_ascii_alnum_def)

lemma metachar_special: "c \<in> set re_metachars \<Longrightarrow> c \<in> set re_special_chars"
  by (auto simp: re_special_chars_def re_metachars_def)

lemma backslash_special: "92 \<in> set re_special_chars" "94 \<in> set re_special_chars"
  by (simp_all add: re_special_chars_def)

text \<open>An escaped string compiles, to the pattern that matches it character by character.\<close>

lemma re_compile_escape: "re_compile (re_escape p) = Some (map Literal p)"
proof (induction p)
  case Nil
  then show ?case by (simp add: re_escape_def)
next
  case (Cons c p)
  have tl: "re_compile (concat (map (\<lambda>c. if c \<in> set re_special_chars then [92, c] else [c]) p))
      = Some (map Literal p)"
    using Cons.IH by (simp add: re_escape_def)
  show ?case
  proof (cases "c \<in> set re_special_chars")
    case True
    then show ?thesis using tl special_not_alnum [OF True]
      by (simp add: re_escape_def)
  next
    case False
    then have "c \<noteq> 92" "c \<noteq> 94" "c \<notin> set re_metachars"
      using backslash_special metachar_special by auto
    then show ?thesis using tl False
      by (simp add: re_escape_def)
  qed
qed

lemma re_match_literals:
  "re_match (map Literal p) b s = (if prefix p s then Some (length p) else None)"
proof (induction p arbitrary: b s)
  case Nil
  then show ?case by simp
next
  case (Cons c p)
  then show ?case by (cases s) auto
qed

text \<open>Past the start of the string an anchored pattern matches nowhere: the rest is copied.\<close>

lemma re_sub_from_not_at_start: "re_sub_from (AtStart # items) repl False s = s"
  by (induction s) simp_all

lemma re_sub_anchored_literal:
  "re_sub (94 # re_escape p) [] s = Inr (if prefix p s then drop (length p) s else s)"
proof -
  have "re_sub_from (AtStart # map Literal p) [] True s
          = (if prefix p s then drop (length p) s else s)"
  proof (cases s)
    case Nil
    then show ?thesis by (simp add: re_match_literals)
  next
    case (Cons d ds)
    show ?thesis
    proof (cases "prefix p s")
      case False
      then show ?thesis using Cons
        by (simp add: re_match_literals re_sub_from_not_at_start)
    next
      case True
      show ?thesis
      proof (cases p)
        case Nil
        then show ?thesis using Cons by (simp add: re_sub_from_not_at_start)
      next
        case (Cons c cs)
        with True \<open>s = d # ds\<close> show ?thesis
          by (simp add: re_match_literals re_sub_from_not_at_start)
      qed
    qed
  qed
  then show ?thesis by (simp add: re_sub_def re_compile_escape)
qed

section \<open>Command builder: theorems\<close>

lemma append_params_concat:
  "map py_str (append_params command items) =
     map py_str command @
     concat (map (\<lambda>(key, v). if v = PNone then [] else [key, py_str v]) items)"
  by (induction items arbitrary: command) auto

text \<open>
  C4. For every generator and prompt the argument vector is the executable path, then
  \<open>-p\<close> and the raw prompt as one element, then for each parameter that is not \<open>None\<close>
  its flag followed by the text of its value, in the order -m, -n, --repeat-penalty,
  --presence-penalty, --frequency-penalty, --top-k, --top-p, --temp, -s. A parameter that
  is \<open>None\<close> contributes no element, and the other elements stay as they are.
\<close>

theorem build_command_layout:
  "build_command self prompt =
     [path_to_ggml_main self, ustr ''-p'', prompt]
     @ flag_value ''-m'' (PStr (name self))
     @ flag_value ''-n'' (max_tokens self)
     @ flag_value ''--repeat-penalty'' (repeat_penalty self)
     @ flag_value ''--presence-penalty'' (presence_penalty self)
     @ flag_value ''--frequency-penalty'' (frequency_penalty self)
     @ flag_value ''--top-k'' (top_k self)
     @ flag_value ''--top-p'' (top_p self)
     @ flag_value ''--temp'' (temperature self)
     @ flag_value ''-s'' (seed self)"
  unfolding build_command_def append_params_concat command_params_def flag_value_def
  by simp

theorem build_command_layout_witness:
  "build_command example_generator (ustr ''Hello'') =
     map ustr [''/opt/llama/main'', ''-p'', ''Hello'', ''-m'', ''good.gguf'', ''-n'', ''50'',
       ''--repeat-penalty'', ''1.1'', ''--presence-penalty'', ''0.0'',
       ''--frequency-penalty'', ''0.0'', ''--top-k'', ''40'', ''--top-p'', ''0.95'',
       ''--temp'', ''0.8'', ''-s'', ''0'']
   \<and> build_command (example_generator\<lparr>max_tokens := PNone, top_k := PNone\<rparr>) (ustr ''Hello'') =
     map ustr [''/opt/llama/main'', ''-p'', ''Hello'', ''-m'', ''good.gguf'',
       ''--repeat-penalty'', ''1.1'', ''--presence-penalty'', ''0.0'',
       ''--frequency-penalty'', ''0.0'', ''--top-p'', ''0.95'',
       ''--temp'', ''0.8'', ''-s'', ''0'']"
  using build_command_layout [of example_generator "ustr ''Hello''"]
        build_command_layout [of "example_generator\<lparr>max_tokens := PNone, top_k := PNone\<rparr>" "ustr ''Hello''"]
  by (simp add: example_generator_def flag_value_def str_int_def dec_digits.simps ustr_def)

section \<open>Calling the model: lemmas and theorems\<close>

lemmas ex_defs = example_generator_def exits_with_def exits_with_bytes_def cannot_run_def

lemma try_body_completed:
  assumes "run command = Exited rc out err" "\<not> (exception_on_failure self \<and> rc \<noteq> 0)"
  shows "try_body self run command prompt =
           (case utf8_decode out of
              None \<Rightarrow> Inl UnicodeDecodeError
            | Some text \<Rightarrow> Inr (strip_echo_spec prompt text))"
  using assms
  by (auto simp: try_body_def subprocess_run_def strip_echo_spec_def Let_def
        re_sub_anchored_literal split: option.splits)

lemma try_body_failed:
  assumes "run command = Exited rc out err" "exception_on_failure self" "rc \<noteq> 0"
  shows "try_body self run command prompt = Inl (CalledProcessError rc command out err)"
  using assms by (simp add: try_body_def subprocess_run_def)

lemma try_body_not_run:
  assumes "run command = NotRun e"
  shows "try_body self run command prompt = Inl e"
  using assms by (simp add: try_body_def subprocess_run_def)

lemma build_command_first_call [simp]:
  "build_command (self\<lparr>first_call := b\<rparr>) prompt = build_command self prompt"
  by (simp add: build_command_def command_params_def)

lemma try_body_first_call [simp]:
  "try_body (self\<lparr>first_call := b\<rparr>) run command prompt = try_body self run command prompt"
  by (simp add: try_body_def)

lemma first_call_never_set:
  "\<not> first_call self \<Longrightarrow> \<not> first_call (self_after (call_model self verbose run prompt))"
proof -
  assume f: "\<not> first_call self"
  show ?thesis
  proof (cases "try_body self run (build_command self prompt) prompt")
    case (Inr res)
    then show ?thesis by (simp add: call_model_def Let_def)
  next
    case (Inl e)
    then show ?thesis using f
      by (cases e) (simp_all add: call_model_def Let_def split: option.splits)
  qed
qed

lemma call_sequence_keeps_false:
  "\<not> first_call self \<Longrightarrow> \<not> first_call (call_sequence self verbose calls)"
proof (induction calls arbitrary: self)
  case Nil
  then show ?case by simp
next
  case (Cons c calls)
  obtain run prompt where c: "c = (run, prompt)" by (cases c)
  show ?case unfolding c call_sequence.simps
    by (rule Cons.IH) (rule first_call_never_set [OF Cons.prems])
qed

text \<open>
  C1 (as amended). When the process exits with a non-zero code and \<open>exception_on_failure\<close>
  is set, the call leaves the generator object as it was, so \<open>first_call\<close> keeps its
  value: in the branch that returns \<open>None\<close> it was false and stays false, and in the
  branch that raises it is still true when the exception leaves the call. No call sets
  the flag to true: once it is false it is false after any series of further calls.
\<close>

theorem first_call_after_exit_code:
  "(exception_on_failure self \<and> run (build_command self prompt) = Exited rc out err \<and> rc \<noteq> 0
      \<longrightarrow> self_after (call_model self verbose run prompt) = self)
   \<and> (\<not> first_call self \<longrightarrow> \<not> first_call (call_sequence self verbose calls))"
proof (intro conjI impI)
  assume a: "exception_on_failure self \<and> run (build_command self prompt) = Exited rc out err \<and> rc \<noteq> 0"
  then have "try_body self run (build_command self prompt) prompt
               = Inl (CalledProcessError rc (build_command self prompt) out err)"
    by (simp add: try_body_failed)
  then show "self_after (call_model self verbose run prompt) = self"
    by (simp add: call_model_def Let_def split: option.splits)
next
  assume "\<not> first_call self"
  then show "\<not> first_call (call_sequence self verbose calls)"
    by (rule call_sequence_keeps_false)
qed

text \<open>
  The claim as it was stated fails on the first call: the process exits with code 1, the
  \<open>CalledProcessError\<close> leaves the call, and \<open>first_call\<close> is still true afterwards.
\<close>

theorem first_call_kept_on_first_failure:
  "first_call (self_after (call_model example_generator 0 (exits_with 1 '''' ''boom'') (ustr ''Hello'')))
   \<and> outcome (call_model example_generator 0 (exits_with 1 '''' ''boom'') (ustr ''Hello''))
       = Inl (CalledProcessError 1 (build_command example_generator (ustr ''Hello'')) []
               (map of_char ''boom''))"
  by (simp add: call_model_def try_body_def subprocess_run_def Let_def ex_defs in_range_def)

theorem first_call_after_exit_code_witness:
  "self_after (call_model example_generator 0 (exits_with 1 '''' ''boom'') (ustr ''Hello''))
     = example_generator
   \<and> \<not> first_call
         (call_sequence (example_generator\<lparr>first_call := False\<rparr>) 0
            [(exits_with 1 '''' ''boom'', ustr ''Hello''),
             (cannot_run, ustr ''Hello''),
             (exits_with 0 ''Hello world'' '''', ustr ''Hello'')])"
proof (rule conjI)
  have h: "exception_on_failure example_generator
           \<and> exits_with 1 '''' ''boom'' (build_command example_generator (ustr ''Hello''))
               = Exited 1 [] (map of_char ''boom'')
           \<and> (1::int) \<noteq> 0"
    by (simp add: example_generator_def exits_with_def)
  show "self_after (call_model example_generator 0 (exits_with 1 '''' ''boom'') (ustr ''Hello''))
          = example_generator"
    by (rule first_call_after_exit_code
          [where self = example_generator and run = "exits_with 1 '''' ''boom''"
             and prompt = "ustr ''Hello''" and rc = 1 and out = "[]"
             and err = "map of_char ''boom''",
           THEN conjunct1, rule_format, OF h])
next
  have f: "\<not> first_call (example_generator\<lparr>first_call := False\<rparr>)"
    by simp
  show "\<not> first_call
         (call_sequence (example_generator\<lparr>first_call := False\<rparr>) 0
            [(exits_with 1 '''' ''boom'', ustr ''Hello''),
             (cannot_run, ustr ''Hello''),
             (exits_with 0 ''Hello world'' '''', ustr ''Hello'')])"
    by (rule first_call_after_exit_code [THEN conjunct2, rule_format, OF f])
qed

text \<open>
  C2 (as amended). When \<open>exception_on_failure\<close> is set, the process exits with a non-zero
  code and its stderr is UTF-8 text: on the first call the \<open>CalledProcessError\<close> leaves
  the call, on a later call the call returns \<open>None\<close>; in both the decoded stderr is
  handed to \<open>logging.error\<close>.
\<close>

theorem nonzero_exit_policy:
  assumes "exception_on_failure self"
    and "run (build_command self prompt) = Exited rc out err"
    and "rc \<noteq> 0"
    and "utf8_decode err = Some text"
  shows "outcome (call_model self verbose run prompt) =
           (if first_call self
            then Inl (CalledProcessError rc (build_command self prompt) out err)
            else Inr None)
         \<and> logged (call_model self verbose run prompt) = [LogText text]"
proof -
  have "try_body self run (build_command self prompt) prompt
          = Inl (CalledProcessError rc (build_command self prompt) out err)"
    using assms by (simp add: try_body_failed)
  then show ?thesis using assms(4)
    by (simp add: call_model_def Let_def)
qed

text \<open>
  The claim as it was stated fails when \<open>exception_on_failure\<close> is unset: on the first
  call the process exits with code 1, and the call returns the echo-stripped stdout; no
  error leaves the call.
\<close>

theorem nonzero_exit_returned_without_check:
  "outcome (call_model (example_generator\<lparr>exception_on_failure := False\<rparr>) 0
              (exits_with 1 ''Hello world'' ''boom'') (ustr ''Hello''))
     = Inr (Some (ustr '' world''))
   \<and> first_call (example_generator\<lparr>exception_on_failure := False\<rparr>)"
  by (simp add: call_model_def try_body_def subprocess_run_def Let_def ex_defs in_range_def
        re_sub_anchored_literal lstrip_def py_isspace_def ustr_def)

theorem nonzero_exit_policy_witness:
  "outcome (call_model example_generator 0 (exits_with 1 '''' ''boom'') (ustr ''Hello''))
     = Inl (CalledProcessError 1 (build_command example_generator (ustr ''Hello'')) []
             (map of_char ''boom''))
   \<and> outcome (call_model (example_generator\<lparr>first_call := False\<rparr>) 0
                (exits_with 1 '''' ''boom'') (ustr ''Hello'')) = Inr None
   \<and> logged (call_model (example_generator\<lparr>first_call := False\<rparr>) 0
                (exits_with 1 '''' ''boom'') (ustr ''Hello'')) = [LogText (ustr ''boom'')]"
  using nonzero_exit_policy
          [of example_generator "exits_with 1 '''' ''boom''" "ustr ''Hello''" 1 "[]"
              "map of_char ''boom''" "ustr ''boom''" 0]
        nonzero_exit_policy
          [of "example_generator\<lparr>first_call := False\<rparr>" "exits_with 1 '''' ''boom''"
              "ustr ''Hello''" 1 "[]" "map of_char ''boom''" "ustr ''boom''" 0]
  by (simp add: ex_defs in_range_def ustr_def)

text \<open>
  Outside the amended statement: when the stderr of the failed process is not valid
  UTF-8, decoding it in the handler raises, and that exception leaves the call on the
  first call and on later calls alike, with nothing logged.
\<close>

lemma undecodable_stderr_propagates:
  assumes "exception_on_failure self"
    and "run (build_command self prompt) = Exited rc out err"
    and "rc \<noteq> 0"
    and "utf8_decode err = None"
  shows "call_model self verbose run prompt =
           \<lparr>outcome = Inl UnicodeDecodeError, self_after = self, logged = [],
            printed = (if verbose > 1 then [PrintInvoked (build_command self prompt)] else [])\<rparr>"
proof -
  have "try_body self run (build_command self prompt) prompt
          = Inl (CalledProcessError rc (build_command self prompt) out err)"
    using assms by (simp add: try_body_failed)
  then show ?thesis using assms(4)
    by (simp add: call_model_def Let_def)
qed

text \<open>
  The scripted sequence of the specification: the first call succeeds, the second exits
  with code 1 and returns \<open>None\<close>.
\<close>

lemma second_call_fails_scenario:
  "outcome (call_model
              (self_after (call_model example_generator 0 (exits_with 0 ''Hello world'' '''')
                             (ustr ''Hello'')))
              0 (exits_with 1 '''' ''boom'') (ustr ''Hello'')) = Inr None"
proof -
  have "try_body example_generator (exits_with 0 ''Hello world'' '''')
          (build_command example_generator (ustr ''Hello'')) (ustr ''Hello'')
        = Inr (strip_echo_spec (ustr ''Hello'') (ustr ''Hello world''))"
    by (simp add: try_body_completed exits_with_def in_range_def ustr_def)
  then have a: "self_after (call_model example_generator 0 (exits_with 0 ''Hello world'' '''')
                             (ustr ''Hello'')) = example_generator\<lparr>first_call := False\<rparr>"
    by (simp add: call_model_def Let_def)
  have "try_body (example_generator\<lparr>first_call := False\<rparr>) (exits_with 1 '''' ''boom'')
          (build_command example_generator (ustr ''Hello'')) (ustr ''Hello'')
        = Inl (CalledProcessError 1 (build_command example_generator (ustr ''Hello'')) []
                 (map of_char ''boom''))"
    by (simp add: try_body_failed exits_with_def example_generator_def)
  then show ?thesis unfolding a
    by (simp add: call_model_def Let_def in_range_def)
qed

text \<open>
  C8. Every exception raised in the \<open>try\<close> block that is not the \<open>CalledProcessError\<close> of
  a non-zero exit code (the process could not be started, say) is logged and the call
  returns \<open>None\<close>; nothing leaves the call. The generator object is unchanged, and the
  call does the same whatever the value of \<open>first_call\<close>: the flag is neither written
  nor read.
\<close>

theorem other_failure_recovered:
  assumes "try_body self run (build_command self prompt) prompt = Inl e"
    and "\<forall>rc cmd out err. e \<noteq> CalledProcessError rc cmd out err"
  shows "call_model self verbose run prompt =
           \<lparr>outcome = Inr None, self_after = self, logged = [LogExn e],
            printed = (if verbose > 1 then [PrintInvoked (build_command self prompt)] else [])\<rparr>
         \<and> (\<forall>b. call_model (self\<lparr>first_call := b\<rparr>) verbose run prompt =
                 (call_model self verbose run prompt)\<lparr>self_after := self\<lparr>first_call := b\<rparr>\<rparr>)"
  using assms by (cases e) (simp_all add: call_model_def Let_def)

theorem other_failure_recovered_witness:
  "call_model example_generator 0 cannot_run (ustr ''Hello'') =
     \<lparr>outcome = Inr None, self_after = example_generator,
      logged = [LogExn (OSError (ustr ''Exec format error''))], printed = []\<rparr>
   \<and> call_model (example_generator\<lparr>first_call := False\<rparr>) 0 cannot_run (ustr ''Hello'') =
     \<lparr>outcome = Inr None, self_after = example_generator\<lparr>first_call := False\<rparr>,
      logged = [LogExn (OSError (ustr ''Exec format error''))], printed = []\<rparr>"
  using other_failure_recovered
          [of example_generator cannot_run "ustr ''Hello''" "OSError (ustr ''Exec format error'')" 0]
  by (simp add: try_body_not_run cannot_run_def)

text \<open>
  C9. With \<open>exception_on_failure\<close> unset the exit code plays no part: the call does what
  it does for exit code zero with the same stdout. When the stdout is UTF-8 text it is
  decoded, echo-stripped and returned, \<open>first_call\<close> is set to false and nothing is
  logged, whatever the exit code and whatever \<open>first_call\<close> was.
\<close>

theorem exit_code_ignored_without_check:
  assumes "\<not> exception_on_failure self"
    and "run (build_command self prompt) = Exited rc out err"
  shows "call_model self verbose run prompt =
           call_model self verbose (\<lambda>command. Exited 0 out err) prompt
         \<and> (\<forall>text. utf8_decode out = Some text \<longrightarrow>
               call_model self verbose run prompt =
                 \<lparr>outcome = Inr (Some (strip_echo_spec prompt text)),
                  self_after = self\<lparr>first_call := False\<rparr>,
                  logged = [],
                  printed = (if verbose > 1 then [PrintInvoked (build_command self prompt)]
                             else [])\<rparr>)"
proof -
  have a: "try_body self run (build_command self prompt) prompt =
           (case utf8_decode out of
              None \<Rightarrow> Inl UnicodeDecodeError
            | Some text \<Rightarrow> Inr (strip_echo_spec prompt text))"
    using assms by (simp add: try_body_completed)
  have b: "try_body self (\<lambda>command. Exited 0 out err) (build_command self prompt) prompt =
           (case utf8_decode out of
              None \<Rightarrow> Inl UnicodeDecodeError
            | Some text \<Rightarrow> Inr (strip_echo_spec prompt text))"
    by (simp add: try_body_completed)
  show ?thesis
    by (simp add: call_model_def Let_def a b)
qed

theorem exit_code_ignored_without_check_witness:
  "call_model (example_generator\<lparr>exception_on_failure := False\<rparr>) 0
     (exits_with 3 ''Hello world'' ''boom'') (ustr ''Hello'') =
     \<lparr>outcome = Inr (Some (ustr '' world'')),
      self_after = example_generator\<lparr>exception_on_failure := False, first_call := False\<rparr>,
      logged = [], printed = []\<rparr>"
proof -
  let ?g = "example_generator\<lparr>exception_on_failure := False\<rparr>"
  have h1: "\<not> exception_on_failure ?g"
    by simp
  have h2: "exits_with 3 ''Hello world'' ''boom'' (build_command ?g (ustr ''Hello''))
              = Exited 3 (map of_char ''Hello world'') (map of_char ''boom'')"
    by (simp add: exits_with_def)
  have h3: "utf8_decode (map of_char ''Hello world'') = Some (ustr ''Hello world'')"
    by (simp add: in_range_def ustr_def)
  have s: "strip_echo_spec (ustr ''Hello'') (ustr ''Hello world'') = ustr '' world''"
    by (simp add: strip_echo_spec_def lstrip_def py_isspace_def ustr_def Let_def)
  show ?thesis
    using exit_code_ignored_without_check
            [where self = "?g" and run = "exits_with 3 ''Hello world'' ''boom''"
               and prompt = "ustr ''Hello''" and rc = 3 and verbose = 0
               and out = "map of_char ''Hello world''" and err = "map of_char ''boom''",
             OF h1 h2, THEN conjunct2, rule_format, OF h3]
    by (simp add: s)
qed

text \<open>
  C10. When the process exits with code zero and its stdout is not valid UTF-8, the call
  returns \<open>None\<close>, the \<open>UnicodeDecodeError\<close> is logged and the generator object is
  unchanged: \<open>first_call\<close> keeps its value, also when this was the first call.
\<close>

theorem undecodable_stdout_recovered:
  assumes "run (build_command self prompt) = Exited 0 out err"
    and "utf8_decode out = None"
  shows "call_model self verbose run prompt =
           \<lparr>outcome = Inr None, self_after = self, logged = [LogExn UnicodeDecodeError],
            printed = (if verbose > 1 then [PrintInvoked (build_command self prompt)] else [])\<rparr>"
proof -
  have "try_body self run (build_command self prompt) prompt = Inl UnicodeDecodeError"
    using assms by (simp add: try_body_completed)
  then show ?thesis by (simp add: call_model_def Let_def)
qed

theorem undecodable_stdout_recovered_witness:
  "call_model example_generator 0 (exits_with_bytes 0 [0xFF] []) (ustr ''Hello'') =
     \<lparr>outcome = Inr None, self_after = example_generator,
      logged = [LogExn UnicodeDecodeError], printed = []\<rparr>
   \<and> first_call example_generator"
  using undecodable_stdout_recovered
          [of "exits_with_bytes 0 [0xFF] []" example_generator "ustr ''Hello''" "[0xFF]" "[]" 0]
  by (simp add: ex_defs in_range_def)

text \<open>Only one occurrence goes: what follows the echoed prompt is returned as it is.\<close>

lemma strip_echo_spec_once:
  assumes "lstrip text = lstrip prompt @ rest"
  shows "strip_echo_spec prompt text = rest"
  using assms by (simp add: strip_echo_spec_def Let_def)

text \<open>
  \<open>lstrip\<close> removes a run of whitespace from the front and stops at the first character
  that is not whitespace; there is one way only to split a string like that.
\<close>

lemma lstrip_decompose:
  "\<exists>ws. s = ws @ lstrip s \<and> (\<forall>c\<in>set ws. py_isspace c)
        \<and> (lstrip s \<noteq> [] \<longrightarrow> \<not> py_isspace (hd (lstrip s)))"
proof (intro exI conjI)
  show "s = takeWhile py_isspace s @ lstrip s"
    by (simp add: lstrip_def)
  show "\<forall>c\<in>set (takeWhile py_isspace s). py_isspace c"
    by (auto dest: set_takeWhileD)
  show "lstrip s \<noteq> [] \<longrightarrow> \<not> py_isspace (hd (lstrip s))"
    unfolding lstrip_def by (auto simp: hd_dropWhile)
qed

lemma leading_whitespace_unique:
  assumes "s = ws @ body"
    and "\<forall>c\<in>set ws. py_isspace c"
    and "body \<noteq> [] \<longrightarrow> \<not> py_isspace (hd body)"
  shows "body = lstrip s"
  using assms
proof (induction ws arbitrary: s)
  case Nil
  then show ?case by (cases body) (simp_all add: lstrip_def)
next
  case (Cons w ws)
  then show ?case by (simp add: lstrip_def)
qed

text \<open>
  C3. On exit code zero with stdout that is UTF-8 text, the decoded stdout is leading
  whitespace followed by a body that does not start with whitespace, the prompt is leading
  whitespace followed by an echo that does not start with whitespace, and the call
  returns the body with one leading occurrence of the echo dropped if the body starts
  with the echo, and the body as it is otherwise. For the prompt \<open>Hello\<close> and the output
  \<open>Hello world\<close> this is \<open> world\<close>, and it is so too with two spaces before the prompt
  and a space, a tab and a newline before the output.
\<close>

theorem echo_stripped_on_success:
  assumes "run (build_command self prompt) = Exited 0 out err"
    and "utf8_decode out = Some text"
  shows "(\<exists>ws_out body ws_prompt echo.
            text = ws_out @ body
          \<and> (\<forall>c\<in>set ws_out. py_isspace c)
          \<and> (body \<noteq> [] \<longrightarrow> \<not> py_isspace (hd body))
          \<and> prompt = ws_prompt @ echo
          \<and> (\<forall>c\<in>set ws_prompt. py_isspace c)
          \<and> (echo \<noteq> [] \<longrightarrow> \<not> py_isspace (hd echo))
          \<and> outcome (call_model self verbose run prompt) =
               Inr (Some (if prefix echo body then drop (length echo) body else body)))
       \<and> (prompt = ustr ''Hello'' \<and> text = ustr ''Hello world'' \<longrightarrow>
            outcome (call_model self verbose run prompt) = Inr (Some (ustr '' world'')))
       \<and> (prompt = [32, 32] @ ustr ''Hello'' \<and> text = [32, 9, 10] @ ustr ''Hello world'' \<longrightarrow>
            outcome (call_model self verbose run prompt) = Inr (Some (ustr '' world'')))"
proof -
  have "try_body self run (build_command self prompt) prompt = Inr (strip_echo_spec prompt text)"
    using assms by (simp add: try_body_completed)
  then have res: "outcome (call_model self verbose run prompt)
                    = Inr (Some (if prefix (lstrip prompt) (lstrip text)
                                 then drop (length (lstrip prompt)) (lstrip text)
                                 else lstrip text))"
    by (simp add: call_model_def Let_def strip_echo_spec_def)
  obtain ws_out where o: "text = ws_out @ lstrip text" "\<forall>c\<in>set ws_out. py_isspace c"
      "lstrip text \<noteq> [] \<longrightarrow> \<not> py_isspace (hd (lstrip text))"
    using lstrip_decompose [of "text"] by blast
  obtain ws_prompt where p: "prompt = ws_prompt @ lstrip prompt" "\<forall>c\<in>set ws_prompt. py_isspace c"
      "lstrip prompt \<noteq> [] \<longrightarrow> \<not> py_isspace (hd (lstrip prompt))"
    using lstrip_decompose [of "prompt"] by blast
  have general: "\<exists>ws_out body ws_prompt echo.
            text = ws_out @ body
          \<and> (\<forall>c\<in>set ws_out. py_isspace c)
          \<and> (body \<noteq> [] \<longrightarrow> \<not> py_isspace (hd body))
          \<and> prompt = ws_prompt @ echo
          \<and> (\<forall>c\<in>set ws_prompt. py_isspace c)
          \<and> (echo \<noteq> [] \<longrightarrow> \<not> py_isspace (hd echo))
          \<and> outcome (call_model self verbose run prompt) =
               Inr (Some (if prefix echo body then drop (length echo) body else body))"
    using o p res by blast
  have hello: "prompt = ustr ''Hello'' \<and> text = ustr ''Hello world'' \<longrightarrow>
            outcome (call_model self verbose run prompt) = Inr (Some (ustr '' world''))"
  proof
    assume a: "prompt = ustr ''Hello'' \<and> text = ustr ''Hello world''"
    then have "lstrip prompt = ustr ''Hello''" "lstrip text = ustr ''Hello world''"
      by (simp_all add: lstrip_def py_isspace_def ustr_def)
    then show "outcome (call_model self verbose run prompt) = Inr (Some (ustr '' world''))"
      using res by (simp add: ustr_def)
  qed
  have spaced: "prompt = [32, 32] @ ustr ''Hello'' \<and> text = [32, 9, 10] @ ustr ''Hello world'' \<longrightarrow>
            outcome (call_model self verbose run prompt) = Inr (Some (ustr '' world''))"
  proof
    assume a: "prompt = [32, 32] @ ustr ''Hello'' \<and> text = [32, 9, 10] @ ustr ''Hello world''"
    then have "lstrip prompt = ustr ''Hello''" "lstrip text = ustr ''Hello world''"
      by (simp_all add: lstrip_def py_isspace_def ustr_def)
    then show "outcome (call_model self verbose run prompt) = Inr (Some (ustr '' world''))"
      using res by (simp add: ustr_def)
  qed
  show ?thesis using general hello spaced by blast
qed

theorem echo_stripped_on_success_witness:
  "outcome (call_model example_generator 0 (exits_with 0 ''Hello world'' '''') (ustr ''Hello''))
     = Inr (Some (ustr '' world''))
   \<and> outcome (call_model example_generator 0
                (exits_with_bytes 0 ([0x20, 0x09, 0x0A] @ map of_char ''Hello world'') [])
                ([32, 32] @ ustr ''Hello''))
     = Inr (Some (ustr '' world''))
   \<and> outcome (call_model example_generator 0
                (exits_with_bytes 0 ([0xC2, 0xA0, 0xE3, 0x80, 0x80] @ map of_char ''Goodbye'') [])
                (ustr ''Hello''))
     = Inr (Some (ustr ''Goodbye''))"
proof (intro conjI)
  have r: "exits_with 0 ''Hello world'' '''' (build_command example_generator (ustr ''Hello''))
             = Exited 0 (map of_char ''Hello world'') []"
    by (simp add: exits_with_def)
  have d: "utf8_decode (map of_char ''Hello world'') = Some (ustr ''Hello world'')"
    by (simp add: in_range_def ustr_def)
  show "outcome (call_model example_generator 0 (exits_with 0 ''Hello world'' '''') (ustr ''Hello''))
          = Inr (Some (ustr '' world''))"
    using echo_stripped_on_success
            [where run = "exits_with 0 ''Hello world'' ''''" and self = example_generator
               and prompt = "ustr ''Hello''" and verbose = 0, OF r d,
             THEN conjunct2, THEN conjunct1]
    by simp
next
  let ?run = "exits_with_bytes 0 ([0x20, 0x09, 0x0A] @ map of_char ''Hello world'') []"
  have r: "?run (build_command example_generator ([32, 32] @ ustr ''Hello''))
             = Exited 0 ([0x20, 0x09, 0x0A] @ map of_char ''Hello world'') []"
    by (simp add: exits_with_bytes_def)
  have d: "utf8_decode ([0x20, 0x09, 0x0A] @ map of_char ''Hello world'')
             = Some ([32, 9, 10] @ ustr ''Hello world'')"
    by (simp add: in_range_def ustr_def)
  show "outcome (call_model example_generator 0 ?run ([32, 32] @ ustr ''Hello''))
          = Inr (Some (ustr '' world''))"
    using echo_stripped_on_success
            [where run = "?run" and self = example_generator
               and prompt = "[32, 32] @ ustr ''Hello''" and verbose = 0, OF r d,
             THEN conjunct2, THEN conjunct2]
    by simp
next
  let ?run = "exits_with_bytes 0 ([0xC2, 0xA0, 0xE3, 0x80, 0x80] @ map of_char ''Goodbye'') []"
  have r: "?run (build_command example_generator (ustr ''Hello''))
             = Exited 0 ([0xC2, 0xA0, 0xE3, 0x80, 0x80] @ map of_char ''Goodbye'') []"
    by (simp add: exits_with_bytes_def)
  have d: "utf8_decode ([0xC2, 0xA0, 0xE3, 0x80, 0x80] @ map of_char ''Goodbye'')
             = Some ([160, 12288] @ ustr ''Goodbye'')"
    by (simp add: in_range_def second_ok_def ustr_def)
  obtain ws_out body ws_prompt echo where
        s: "[160, 12288] @ ustr ''Goodbye'' = ws_out @ body"
           "\<forall>c\<in>set ws_out. py_isspace c"
           "body \<noteq> [] \<longrightarrow> \<not> py_isspace (hd body)"
           "ustr ''Hello'' = ws_prompt @ echo"
           "\<forall>c\<in>set ws_prompt. py_isspace c"
           "echo \<noteq> [] \<longrightarrow> \<not> py_isspace (hd echo)"
    and res: "outcome (call_model example_generator 0 ?run (ustr ''Hello''))
               = Inr (Some (if prefix echo body then drop (length echo) body else body))"
    using echo_stripped_on_success
            [where run = "?run" and self = example_generator
               and prompt = "ustr ''Hello''" and verbose = 0, OF r d, THEN conjunct1]
    by blast
  have "body = lstrip ([160, 12288] @ ustr ''Goodbye'')"
    using leading_whitespace_unique [OF s(1) s(2) s(3)] .
  then have body: "body = ustr ''Goodbye''"
    by (simp add: lstrip_def py_isspace_def ustr_def)
  have "echo = lstrip (ustr ''Hello'')"
    using leading_whitespace_unique [OF s(4) s(5) s(6)] .
  then have echo: "echo = ustr ''Hello''"
    by (simp add: lstrip_def py_isspace_def ustr_def)
  show "outcome (call_model example_generator 0 ?run (ustr ''Hello''))
          = Inr (Some (ustr ''Goodbye''))"
    unfolding res body echo by (simp add: ustr_def)
qed

section \<open>Construction: lemmas and theorems\<close>

lemma header_is_magic: "take (length GGUF_MAGIC) content = GGUF_MAGIC \<longleftrightarrow> prefix GGUF_MAGIC content"
proof
  assume "take (length GGUF_MAGIC) content = GGUF_MAGIC"
  then have "content = GGUF_MAGIC @ drop (length GGUF_MAGIC) content"
    by (metis append_take_drop_id)
  then show "prefix GGUF_MAGIC content"
    by (metis prefixI)
next
  assume "prefix GGUF_MAGIC content"
  then obtain rest where "content = GGUF_MAGIC @ rest"
    by (auto simp: prefix_def)
  then show "take (length GGUF_MAGIC) content = GGUF_MAGIC"
    by simp
qed

lemma short_file_not_magic: "length content < 4 \<Longrightarrow> \<not> prefix GGUF_MAGIC content"
  by (auto simp: prefix_def GGUF_MAGIC_def)

lemma init_succeeds:
  assumes "os_getenv env (ustr ''GGML_MAIN_PATH'') = Some path"
    and "isfile env path"
    and "files env model_name = Some content"
    and "prefix GGUF_MAGIC content"
  shows "\<exists>g. fst (init env mt model_name gens) = Inr g"
  using assms header_is_magic [of content]
  by (simp add: init_def isfile_def file_read_def Let_def)

lemma example_getenv:
  "os_getenv example_env (ustr ''GGML_MAIN_PATH'') = Some (ustr ''/opt/llama/main'')"
  by (simp add: os_getenv_def example_env_def)

lemma example_files:
  "files example_env (ustr ''/opt/llama/main'') = Some [0x7F, 0x45, 0x4C, 0x46]"
  "files example_env (ustr ''good.gguf'') = Some [0x47, 0x47, 0x55, 0x46, 0x03, 0x00]"
  "files example_env (ustr ''bad.bin'') = Some [0x67, 0x67, 0x6D, 0x6C, 0x01]"
  "files example_env (ustr ''short.bin'') = Some [0x47, 0x47]"
  "files example_env (ustr ''missing.gguf'') = None"
  by (simp_all add: example_env_def ustr_def)

text \<open>The constructor looks at nothing of the model file past its first four bytes.\<close>

lemma init_reads_header_only:
  assumes "files env model_name = Some content"
    and "take 4 content' = take 4 content"
  shows "init (env\<lparr>files := (files env)(model_name \<mapsto> content')\<rparr>) mt model_name gens
         = init env mt model_name gens"
proof -
  have "length GGUF_MAGIC = 4"
    by (simp add: GGUF_MAGIC_def)
  then show ?thesis using assms
    by (auto simp: init_def isfile_def file_read_def os_getenv_def Let_def split: option.splits)
qed

text \<open>
  C5. When the executable is configured and is a regular file, every model file that is a
  regular file and does not start with the four bytes 0x47 0x47 0x55 0x46 makes the
  constructor raise the \<open>RuntimeError\<close> "is not in GGUF format", whatever its length: a
  file of fewer than four bytes does not start with them either. The constructor asks for
  four bytes of the file in one read, and its result is the same for every file content
  with the same first four bytes.
\<close>

theorem model_header_checked:
  assumes "os_getenv env (ustr ''GGML_MAIN_PATH'') = Some path"
    and "isfile env path"
    and "files env model_name = Some content"
    and "\<not> prefix GGUF_MAGIC content"
  shows "init env mt model_name gens =
           (Inl (RuntimeError (model_name @ ustr '' is not in GGUF format'')),
            [FsIsFile path, FsIsFile model_name, FsOpen model_name, FsRead model_name 4,
             FsClose model_name])
         \<and> (\<forall>content'. take 4 content' = take 4 content \<longrightarrow>
               init (env\<lparr>files := (files env)(model_name \<mapsto> content')\<rparr>) mt model_name gens
               = init env mt model_name gens)"
proof -
  have "file_read env model_name (length GGUF_MAGIC) \<noteq> GGUF_MAGIC"
    using assms(3,4) header_is_magic [of content] by (simp add: file_read_def)
  moreover have "length GGUF_MAGIC = 4"
    by (simp add: GGUF_MAGIC_def)
  ultimately have "init env mt model_name gens =
           (Inl (RuntimeError (model_name @ ustr '' is not in GGUF format'')),
            [FsIsFile path, FsIsFile model_name, FsOpen model_name, FsRead model_name 4,
             FsClose model_name])"
    using assms(1,2,3) by (simp add: init_def isfile_def Let_def)
  then show ?thesis
    using init_reads_header_only [OF assms(3)] by blast
qed

theorem model_header_checked_witness:
  "fst (init example_env (PInt 50) (ustr ''bad.bin'') 10)
     = Inl (RuntimeError (ustr ''bad.bin is not in GGUF format''))
   \<and> init example_env (PInt 50) (ustr ''short.bin'') 10
     = (Inl (RuntimeError (ustr ''short.bin is not in GGUF format'')),
        [FsIsFile (ustr ''/opt/llama/main''), FsIsFile (ustr ''short.bin''),
         FsOpen (ustr ''short.bin''), FsRead (ustr ''short.bin'') 4,
         FsClose (ustr ''short.bin'')])
   \<and> init (example_env\<lparr>files := (files example_env)
                (ustr ''bad.bin'' \<mapsto> [0x67, 0x67, 0x6D, 0x6C, 0xFF, 0xFE, 0xFD])\<rparr>)
          (PInt 50) (ustr ''bad.bin'') 10
     = init example_env (PInt 50) (ustr ''bad.bin'') 10"
proof -
  have exe: "isfile example_env (ustr ''/opt/llama/main'')"
    by (simp add: isfile_def example_files)
  have bad: "\<not> prefix GGUF_MAGIC [0x67, 0x67, 0x6D, 0x6C, 0x01]"
    by (simp add: GGUF_MAGIC_def)
  have short: "\<not> prefix GGUF_MAGIC [0x47, 0x47]"
    by (simp add: GGUF_MAGIC_def)
  have same: "take 4 [0x67, 0x67, 0x6D, 0x6C, 0xFF, 0xFE, 0xFD :: 8 word]
                = take 4 [0x67, 0x67, 0x6D, 0x6C, 0x01]"
    by simp
  note b = model_header_checked [OF example_getenv exe example_files(3) bad, of "PInt 50" 10]
  note s = model_header_checked [OF example_getenv exe example_files(4) short, of "PInt 50" 10]
  have 1: "fst (init example_env (PInt 50) (ustr ''bad.bin'') 10)
     = Inl (RuntimeError (ustr ''bad.bin is not in GGUF format''))"
    using b [THEN conjunct1] by (simp add: ustr_def)
  have 2: "init example_env (PInt 50) (ustr ''short.bin'') 10
     = (Inl (RuntimeError (ustr ''short.bin is not in GGUF format'')),
        [FsIsFile (ustr ''/opt/llama/main''), FsIsFile (ustr ''short.bin''),
         FsOpen (ustr ''short.bin''), FsRead (ustr ''short.bin'') 4,
         FsClose (ustr ''short.bin'')])"
    using s [THEN conjunct1] by (simp add: ustr_def)
  have 3: "init (example_env\<lparr>files := (files example_env)
                (ustr ''bad.bin'' \<mapsto> [0x67, 0x67, 0x6D, 0x6C, 0xFF, 0xFE, 0xFD])\<rparr>)
          (PInt 50) (ustr ''bad.bin'') 10
     = init example_env (PInt 50) (ustr ''bad.bin'') 10"
    using b [THEN conjunct2, rule_format, OF same] .
  show ?thesis using 1 2 3 by blast
qed

text \<open>
  C6. The constructor raises the \<open>RuntimeError\<close> "Executable not provided" when
  \<open>GGML_MAIN_PATH\<close> is unset; else \<open>FileNotFoundError\<close> when the executable path is not a
  regular file; else \<open>FileNotFoundError\<close> when the model path is not a regular file. Each
  of these is decided before the model file is opened, whatever the file holds. A
  generator object exists only when all checks and the format check have passed, so no
  call is made on a configuration that is not valid.
\<close>

theorem validation_order:
  "(os_getenv env (ustr ''GGML_MAIN_PATH'') = None \<longrightarrow>
      init env mt model_name gens =
        (Inl (RuntimeError (ustr ''Executable not provided by environment GGML_MAIN_PATH'')), []))
   \<and> (\<forall>path. os_getenv env (ustr ''GGML_MAIN_PATH'') = Some path \<and> \<not> isfile env path \<longrightarrow>
      init env mt model_name gens =
        (Inl (FileNotFoundError (ustr ''Path provided is not a file: '' @ path)),
         [FsIsFile path]))
   \<and> (\<forall>path. os_getenv env (ustr ''GGML_MAIN_PATH'') = Some path \<and> isfile env path
             \<and> \<not> isfile env model_name \<longrightarrow>
      init env mt model_name gens =
        (Inl (FileNotFoundError (ustr ''File not found, unable to load model: '' @ model_name)),
         [FsIsFile path, FsIsFile model_name]))
   \<and> (\<forall>g. fst (init env mt model_name gens) = Inr g \<longrightarrow>
      os_getenv env (ustr ''GGML_MAIN_PATH'') = Some (path_to_ggml_main g)
      \<and> isfile env (path_to_ggml_main g)
      \<and> name g = model_name
      \<and> isfile env model_name
      \<and> file_read env model_name 4 = GGUF_MAGIC)"
proof -
  have "length GGUF_MAGIC = 4"
    by (simp add: GGUF_MAGIC_def)
  then show ?thesis
    by (auto simp: init_def Let_def split: option.splits if_splits)
qed

theorem validation_order_witness:
  "init (example_env\<lparr>environ := Map.empty\<rparr>) (PInt 50) (ustr ''bad.bin'') 10 =
     (Inl (RuntimeError (ustr ''Executable not provided by environment GGML_MAIN_PATH'')), [])
   \<and> init (example_env\<lparr>environ := [ustr ''GGML_MAIN_PATH'' \<mapsto> ustr ''/nowhere/main'']\<rparr>)
        (PInt 50) (ustr ''bad.bin'') 10 =
     (Inl (FileNotFoundError (ustr ''Path provided is not a file: /nowhere/main'')),
      [FsIsFile (ustr ''/nowhere/main'')])
   \<and> init example_env (PInt 50) (ustr ''missing.gguf'') 10 =
     (Inl (FileNotFoundError (ustr ''File not found, unable to load model: missing.gguf'')),
      [FsIsFile (ustr ''/opt/llama/main''), FsIsFile (ustr ''missing.gguf'')])
   \<and> file_read example_env (ustr ''good.gguf'') 4 = GGUF_MAGIC"
proof -
  let ?nowhere = "example_env\<lparr>environ := [ustr ''GGML_MAIN_PATH'' \<mapsto> ustr ''/nowhere/main'']\<rparr>"
  have a: "os_getenv (example_env\<lparr>environ := Map.empty\<rparr>) (ustr ''GGML_MAIN_PATH'') = None"
    by (simp add: os_getenv_def)
  have b: "os_getenv ?nowhere (ustr ''GGML_MAIN_PATH'') = Some (ustr ''/nowhere/main'')
           \<and> \<not> isfile ?nowhere (ustr ''/nowhere/main'')"
    by (simp add: os_getenv_def isfile_def example_env_def ustr_def)
  have c: "os_getenv example_env (ustr ''GGML_MAIN_PATH'') = Some (ustr ''/opt/llama/main'')
           \<and> isfile example_env (ustr ''/opt/llama/main'')
           \<and> \<not> isfile example_env (ustr ''missing.gguf'')"
    by (simp add: example_getenv isfile_def example_files)
  obtain g where g: "fst (init example_env (PInt 50) (ustr ''good.gguf'') 10) = Inr g"
    using init_succeeds [OF example_getenv _ example_files(2), of "PInt 50" 10]
    by (auto simp: isfile_def example_files GGUF_MAGIC_def)
  note v = validation_order [where mt = "PInt 50" and gens = 10]
  have 1: "init (example_env\<lparr>environ := Map.empty\<rparr>) (PInt 50) (ustr ''bad.bin'') 10 =
     (Inl (RuntimeError (ustr ''Executable not provided by environment GGML_MAIN_PATH'')), [])"
    using v [THEN conjunct1, rule_format, OF a] .
  have 2: "init ?nowhere (PInt 50) (ustr ''bad.bin'') 10 =
     (Inl (FileNotFoundError (ustr ''Path provided is not a file: '' @ ustr ''/nowhere/main'')),
      [FsIsFile (ustr ''/nowhere/main'')])"
    using v [THEN conjunct2, THEN conjunct1, rule_format, OF b] .
  have 3: "init example_env (PInt 50) (ustr ''missing.gguf'') 10 =
     (Inl (FileNotFoundError (ustr ''File not found, unable to load model: '' @ ustr ''missing.gguf'')),
      [FsIsFile (ustr ''/opt/llama/main''), FsIsFile (ustr ''missing.gguf'')])"
    using v [THEN conjunct2, THEN conjunct2, THEN conjunct1, rule_format, OF c] .
  have 4: "file_read example_env (ustr ''good.gguf'') 4 = GGUF_MAGIC"
    using v [THEN conjunct2, THEN conjunct2, THEN conjunct2, rule_format, OF g] by simp
  have s: "ustr ''Path provided is not a file: '' @ ustr ''/nowhere/main''
             = ustr ''Path provided is not a file: /nowhere/main''"
          "ustr ''File not found, unable to load model: '' @ ustr ''missing.gguf''
             = ustr ''File not found, unable to load model: missing.gguf''"
    by (simp_all add: ustr_def)
  show ?thesis using 1 2 3 4 unfolding s by blast
qed

text \<open>
  C7. After every successful construction the seed is the seed of the run configuration
  when that is set and 0 when it is \<open>None\<close>; it is never \<open>None\<close>, and with no configured
  seed it is 0, not a negative value.
\<close>

theorem seed_resolved:
  assumes "fst (init env mt model_name gens) = Inr g"
  shows "seed g = PInt (case run_seed env of Some s \<Rightarrow> s | None \<Rightarrow> 0)
         \<and> seed g \<noteq> PNone
         \<and> (run_seed env = None \<longrightarrow> seed g = PInt 0)"
  using assms
  by (auto simp: init_def Let_def split: option.splits if_splits)


theorem seed_resolved_witness:
  "(\<exists>g. fst (init example_env (PInt 50) (ustr ''good.gguf'') 10) = Inr g \<and> seed g = PInt 0)
   \<and> (\<exists>g. fst (init (example_env\<lparr>run_seed := Some 42\<rparr>) (PInt 50) (ustr ''good.gguf'') 10) = Inr g
          \<and> seed g = PInt 42)"
proof -
  let ?e = "example_env\<lparr>run_seed := Some 42\<rparr>"
  obtain g where g: "fst (init example_env (PInt 50) (ustr ''good.gguf'') 10) = Inr g"
    using init_succeeds [OF example_getenv _ example_files(2), of "PInt 50" 10]
    by (auto simp: isfile_def example_files GGUF_MAGIC_def)
  have "os_getenv ?e (ustr ''GGML_MAIN_PATH'') = Some (ustr ''/opt/llama/main'')"
       "files ?e (ustr ''good.gguf'') = Some [0x47, 0x47, 0x55, 0x46, 0x03, 0x00]"
       "isfile ?e (ustr ''/opt/llama/main'')"
    using example_getenv example_files by (simp_all add: os_getenv_def isfile_def)
  then obtain h where h: "fst (init ?e (PInt 50) (ustr ''good.gguf'') 10) = Inr h"
    using init_succeeds [of ?e "ustr ''/opt/llama/main''" "ustr ''good.gguf''" _ "PInt 50" 10]
    by (auto simp: GGUF_MAGIC_def)
  have "seed g = PInt 0"
    using seed_resolved [OF g] by (simp add: example_env_def)
  moreover have "seed h = PInt 42"
    using seed_resolved [OF h] by simp
  ultimately show ?thesis using g h by blast
qed
end
